theory Spec2Isabelle
  imports Main "HOL-Library.Word"
begin

unbundle bit_operations_syntax

section \<open>HASSH: SSH fingerprints from dissected packets (hassh.py)\<close>

text \<open>
  The program reads packets that an external dissector (tshark, through pyshark) has
  already split into layers, and turns the SSH key-exchange packets into fingerprint
  records. The embedding follows \<^verbatim>\<open>src/python/hassh.py\<close> function by function and keeps
  its names. Python values are modelled as follows.
  \<^item> A Python \<^verbatim>\<open>str\<close> is a \<^typ>\<open>string\<close>; a \<^typ>\<open>char\<close> stands for the code point
    of the same number, so the model covers text over the code points below 256.
  \<^item> A record (a Python \<^verbatim>\<open>dict\<close> with string keys, built by a literal) is an association
    list in the order of the literal; its values are strings or \<^verbatim>\<open>None\<close>.
  \<^item> An exception is a value of type \<open>error\<close>; a function that may raise returns
    \<open>error + 'a\<close>.
\<close>

subsection \<open>Python values, dictionaries and exceptions\<close>

datatype error =
    AttributeError string
  | KeyError string
  | UnboundLocalError string

datatype pyval = PStr string | PNone

type_synonym pydict = "(string \<times> pyval) list"

text \<open>\<^verbatim>\<open>key in record\<close> and \<^verbatim>\<open>record[key]\<close>.\<close>

definition has_key :: "string \<Rightarrow> pydict \<Rightarrow> bool" where
  "has_key k d = (map_of d k \<noteq> None)"

definition getitem :: "pydict \<Rightarrow> string \<Rightarrow> error + pyval" where
  "getitem d k = (case map_of d k of None \<Rightarrow> Inl (KeyError k) | Some v \<Rightarrow> Inr v)"

text \<open>Sequencing of computations that may raise: the first exception wins.\<close>

definition ebind :: "error + 'a \<Rightarrow> ('a \<Rightarrow> error + 'b) \<Rightarrow> error + 'b" where
  "ebind m f = (case m of Inl e \<Rightarrow> Inl e | Inr x \<Rightarrow> f x)"

text \<open>What \<^verbatim>\<open>'{}'.format(v)\<close> prints for a value.\<close>

definition format_val :: "pyval \<Rightarrow> string" where
  "format_val v = (case v of PStr s \<Rightarrow> s | PNone \<Rightarrow> ''None'')"

text \<open>\<^verbatim>\<open>sep.join(xs)\<close>.\<close>

fun join :: "string \<Rightarrow> string list \<Rightarrow> string" where
  "join sep [] = []"
| "join sep [x] = x"
| "join sep (x # y # ys) = x @ sep @ join sep (y # ys)"

text \<open>The decimal text of a number, as the dissector prints a port.\<close>

fun str_nat :: "nat \<Rightarrow> string" where
  "str_nat n =
     (if n < 10 then [''0123456789'' ! n]
      else str_nat (n div 10) @ [''0123456789'' ! (n mod 10)])"

declare str_nat.simps [simp del]

subsection \<open>The digest: \<^verbatim>\<open>md5(s.encode()).hexdigest()\<close>\<close>

text \<open>
  \<^verbatim>\<open>hashlib.md5\<close> and \<^verbatim>\<open>str.encode\<close> belong to the Python library, not to the program.
  They are written out here after RFC 1321 and the UTF-8 encoding (for code points below
  256: one byte below 128, two bytes from 128 on), so that a digest can be computed.
\<close>

type_synonym byte = "8 word"
type_synonym u32 = "32 word"

definition utf8_char :: "char \<Rightarrow> byte list" where
  "utf8_char c =
     (let n = (of_char c :: nat)
      in if n < 128 then [of_nat n]
         else [of_nat (192 + n div 64), of_nat (128 + n mod 64)])"

definition encode :: "string \<Rightarrow> byte list" where
  "encode s = concat (map utf8_char s)"

definition md5_K :: "u32 list" where
  "md5_K =
    [0xd76aa478, 0xe8c7b756, 0x242070db, 0xc1bdceee,
     0xf57c0faf, 0x4787c62a, 0xa8304613, 0xfd469501,
     0x698098d8, 0x8b44f7af, 0xffff5bb1, 0x895cd7be,
     0x6b901122, 0xfd987193, 0xa679438e, 0x49b40821,
     0xf61e2562, 0xc040b340, 0x265e5a51, 0xe9b6c7aa,
     0xd62f105d, 0x02441453, 0xd8a1e681, 0xe7d3fbc8,
     0x21e1cde6, 0xc33707d6, 0xf4d50d87, 0x455a14ed,
     0xa9e3e905, 0xfcefa3f8, 0x676f02d9, 0x8d2a4c8a,
     0xfffa3942, 0x8771f681, 0x6d9d6122, 0xfde5380c,
     0xa4beea44, 0x4bdecfa9, 0xf6bb4b60, 0xbebfbc70,
     0x289b7ec6, 0xeaa127fa, 0xd4ef3085, 0x04881d05,
     0xd9d4d039, 0xe6db99e5, 0x1fa27cf8, 0xc4ac5665,
     0xf4292244, 0x432aff97, 0xab9423a7, 0xfc93a039,
     0x655b59c3, 0x8f0ccc92, 0xffeff47d, 0x85845dd1,
     0x6fa87e4f, 0xfe2ce6e0, 0xa3014314, 0x4e0811a1,
     0xf7537e82, 0xbd3af235, 0x2ad7d2bb, 0xeb86d391]"

definition md5_s :: "nat list" where
  "md5_s =
    [7, 12, 17, 22, 7, 12, 17, 22, 7, 12, 17, 22, 7, 12, 17, 22,
     5, 9, 14, 20, 5, 9, 14, 20, 5, 9, 14, 20, 5, 9, 14, 20,
     4, 11, 16, 23, 4, 11, 16, 23, 4, 11, 16, 23, 4, 11, 16, 23,
     6, 10, 15, 21, 6, 10, 15, 21, 6, 10, 15, 21, 6, 10, 15, 21]"

definition le_bytes32 :: "u32 \<Rightarrow> byte list" where
  "le_bytes32 w = [ucast w, ucast (drop_bit 8 w), ucast (drop_bit 16 w), ucast (drop_bit 24 w)]"

definition le_bytes64 :: "64 word \<Rightarrow> byte list" where
  "le_bytes64 w = map (\<lambda>i. ucast (drop_bit (8 * i) w)) [0..<8]"

definition le_word32 :: "byte list \<Rightarrow> u32" where
  "le_word32 bs = foldr (\<lambda>b w. ucast b OR push_bit 8 w) bs 0"

definition md5_pad :: "byte list \<Rightarrow> byte list" where
  "md5_pad m =
     m @ [0x80] @ replicate ((119 - length m mod 64) mod 64) 0
       @ le_bytes64 (of_nat (8 * length m))"

definition md5_blocks :: "byte list \<Rightarrow> u32 list list" where
  "md5_blocks bs =
     map (\<lambda>i. map (\<lambda>j. le_word32 (take 4 (drop (64 * i + 4 * j) bs))) [0..<16])
       [0..<length bs div 64]"

definition md5_step :: "u32 list \<Rightarrow> u32 \<times> u32 \<times> u32 \<times> u32 \<Rightarrow> nat \<Rightarrow> u32 \<times> u32 \<times> u32 \<times> u32" where
  "md5_step M st i =
     (case st of (A, B, C, D) \<Rightarrow>
        let (F, g) =
              (if i < 16 then ((B AND C) OR (NOT B AND D), i)
               else if i < 32 then ((D AND B) OR (NOT D AND C), (5 * i + 1) mod 16)
               else if i < 48 then (B XOR C XOR D, (3 * i + 5) mod 16)
               else (C XOR (B OR NOT D), (7 * i) mod 16));
            F' = F + A + md5_K ! i + M ! g
        in (D, B + word_rotl (md5_s ! i) F', B, C))"

definition md5_block :: "u32 \<times> u32 \<times> u32 \<times> u32 \<Rightarrow> u32 list \<Rightarrow> u32 \<times> u32 \<times> u32 \<times> u32" where
  "md5_block st M =
     (case st of (a0, b0, c0, d0) \<Rightarrow>
        case foldl (md5_step M) st [0..<64] of (A, B, C, D) \<Rightarrow>
          (a0 + A, b0 + B, c0 + C, d0 + D))"

definition md5 :: "byte list \<Rightarrow> byte list" where
  "md5 m =
     (case foldl md5_block (0x67452301, 0xefcdab89, 0x98badcfe, 0x10325476)
             (md5_blocks (md5_pad m)) of
        (a, b, c, d) \<Rightarrow> concat (map le_bytes32 [a, b, c, d]))"

definition hexdigit :: "nat \<Rightarrow> char" where
  "hexdigit n = ''0123456789abcdef'' ! n"

definition hexdigest :: "byte list \<Rightarrow> string" where
  "hexdigest bs = concat (map (\<lambda>b. [hexdigit (unat b div 16), hexdigit (unat b mod 16)]) bs)"

subsection \<open>Dissected packets\<close>

text \<open>
  A packet as pyshark presents it. \<^verbatim>\<open>packet.ssh\<close> is the field dictionary of the SSH
  layer: \<^verbatim>\<open>'f' in packet.ssh.field_names\<close> is \<open>ssh packet ''f'' \<noteq> None\<close> and
  \<^verbatim>\<open>packet.ssh.f\<close> is its value. \<^verbatim>\<open>packet.tcp.srcport\<close> and \<^verbatim>\<open>packet.tcp.dstport\<close> are
  the decimal text of a port number: the model keeps the number, \<open>str_nat\<close> gives the
  text and \<^verbatim>\<open>int(packet.tcp.srcport)\<close> is the number itself. \<^verbatim>\<open>packet.ip\<close> exists only
  when the packet has an IPv4 layer; on any other packet (SSH over IPv6, for one)
  reading it raises \<^verbatim>\<open>AttributeError\<close>. \<open>sniff_time\<close> holds the text that
  \<^verbatim>\<open>packet.sniff_time.isoformat()\<close> returns.
\<close>

record ip_layer =
  src :: string
  dst :: string

record tcp_layer =
  srcport :: nat
  dstport :: nat
  field_names :: "string list"

record packet =
  highest_layer :: string
  sniff_time :: string
  ip :: "ip_layer option"
  tcp :: tcp_layer
  ssh :: "string \<rightharpoonup> string"

text \<open>\<^verbatim>\<open>'{}:{}_{}:{}'.format(srcip, sport, dstip, dport)\<close>.\<close>

definition format_key :: "string \<Rightarrow> string \<Rightarrow> string \<Rightarrow> string \<Rightarrow> string" where
  "format_key srcip sport dstip dport = srcip @ '':'' @ sport @ ''_'' @ dstip @ '':'' @ dport"

text \<open>
  The idiom \<^verbatim>\<open>x = ""\<close> followed by \<^verbatim>\<open>if 'f' in packet.ssh.field_names: x = packet.ssh.f\<close>.
\<close>

definition field_or_empty :: "(string \<rightharpoonup> string) \<Rightarrow> string \<Rightarrow> string" where
  "field_or_empty layer f = (case layer f of None \<Rightarrow> [] | Some v \<Rightarrow> v)"

definition HASSH_VERSION :: string where
  "HASSH_VERSION = ''1.0''"

subsection \<open>\<^verbatim>\<open>event_log\<close>, \<^verbatim>\<open>client_hassh\<close>, \<^verbatim>\<open>server_hassh\<close>\<close>

text \<open>
  \<^verbatim>\<open>event_log\<close> assigns \<^verbatim>\<open>event_message\<close> for the event \<^verbatim>\<open>"retransmission"\<close> only; the
  dictionary literal reads it after the timestamp and before the addresses.
\<close>

definition event_log :: "packet \<Rightarrow> string \<Rightarrow> error + pydict" where
  "event_log packet event =
     (if event \<noteq> ''retransmission'' then Inl (UnboundLocalError ''event_message'')
      else case ip packet of
        None \<Rightarrow> Inl (AttributeError ''ip'')
      | Some ipl \<Rightarrow>
          Inr [(''timestamp'', PStr (sniff_time packet)),
               (''eventType'', PStr event),
               (''eventMessage'', PStr ''This packet is a (suspected) retransmission''),
               (''sourceIp'', PStr (src ipl)),
               (''destinationIp'', PStr (dst ipl)),
               (''sourcePort'', PStr (str_nat (srcport (tcp packet)))),
               (''destinationPort'', PStr (str_nat (dstport (tcp packet))))])"

text \<open>
  Both fingerprint functions read \<^verbatim>\<open>packet.ip.src\<close> first, build the key of the protocol
  dictionary with \<^verbatim>\<open>dport = packet.tcp.srcport\<close> (as the source has it), look the protocol
  string up (\<^verbatim>\<open>None\<close> when the key is not there), default the nine SSH fields to the empty
  string and hash the four fields of their direction.
\<close>

definition client_hassh :: "packet \<Rightarrow> (string \<rightharpoonup> string) \<Rightarrow> error + pydict" where
  "client_hassh packet pdict =
     (case ip packet of
        None \<Rightarrow> Inl (AttributeError ''ip'')
      | Some ipl \<Rightarrow>
          let srcip = src ipl;
              dstip = dst ipl;
              sport = str_nat (srcport (tcp packet));
              dport = str_nat (srcport (tcp packet));
              key = format_key srcip sport dstip dport;
              protocol = (case pdict key of None \<Rightarrow> PNone | Some v \<Rightarrow> PStr v);
              ckex = field_or_empty (ssh packet) ''kex_algorithms'';
              ceacts = field_or_empty (ssh packet) ''encryption_algorithms_client_to_server'';
              cmacts = field_or_empty (ssh packet) ''mac_algorithms_client_to_server'';
              ccacts = field_or_empty (ssh packet) ''compression_algorithms_client_to_server'';
              clcts = field_or_empty (ssh packet) ''languages_client_to_server'';
              clstc = field_or_empty (ssh packet) ''languages_server_to_client'';
              ceastc = field_or_empty (ssh packet) ''encryption_algorithms_server_to_client'';
              cmastc = field_or_empty (ssh packet) ''mac_algorithms_server_to_client'';
              ccastc = field_or_empty (ssh packet) ''compression_algorithms_server_to_client'';
              hassh_str = join '';'' [ckex, ceacts, cmacts, ccacts];
              hassh = hexdigest (md5 (encode hassh_str))
          in Inr [(''timestamp'', PStr (sniff_time packet)),
                  (''sourceIp'', PStr (src ipl)),
                  (''destinationIp'', PStr (dst ipl)),
                  (''sourcePort'', PStr (str_nat (srcport (tcp packet)))),
                  (''destinationPort'', PStr (str_nat (dstport (tcp packet)))),
                  (''client'', protocol),
                  (''hassh'', PStr hassh),
                  (''hasshAlgorithms'', PStr hassh_str),
                  (''hasshVersion'', PStr HASSH_VERSION),
                  (''ckex'', PStr ckex),
                  (''ceacts'', PStr ceacts),
                  (''cmacts'', PStr cmacts),
                  (''ccacts'', PStr ccacts),
                  (''clcts'', PStr clcts),
                  (''clstc'', PStr clstc),
                  (''ceastc'', PStr ceastc),
                  (''cmastc'', PStr cmastc),
                  (''ccastc'', PStr ccastc)])"

definition server_hassh :: "packet \<Rightarrow> (string \<rightharpoonup> string) \<Rightarrow> error + pydict" where
  "server_hassh packet pdict =
     (case ip packet of
        None \<Rightarrow> Inl (AttributeError ''ip'')
      | Some ipl \<Rightarrow>
          let srcip = src ipl;
              dstip = dst ipl;
              sport = str_nat (srcport (tcp packet));
              dport = str_nat (srcport (tcp packet));
              key = format_key srcip sport dstip dport;
              protocol = (case pdict key of None \<Rightarrow> PNone | Some v \<Rightarrow> PStr v);
              skex = field_or_empty (ssh packet) ''kex_algorithms'';
              seastc = field_or_empty (ssh packet) ''encryption_algorithms_server_to_client'';
              smastc = field_or_empty (ssh packet) ''mac_algorithms_server_to_client'';
              scastc = field_or_empty (ssh packet) ''compression_algorithms_server_to_client'';
              slcts = field_or_empty (ssh packet) ''languages_client_to_server'';
              slstc = field_or_empty (ssh packet) ''languages_server_to_client'';
              seacts = field_or_empty (ssh packet) ''encryption_algorithms_client_to_server'';
              smacts = field_or_empty (ssh packet) ''mac_algorithms_client_to_server'';
              scacts = field_or_empty (ssh packet) ''compression_algorithms_client_to_server'';
              hasshs_str = join '';'' [skex, seastc, smastc, scastc];
              hasshs = hexdigest (md5 (encode hasshs_str))
          in Inr [(''timestamp'', PStr (sniff_time packet)),
                  (''sourceIp'', PStr (src ipl)),
                  (''destinationIp'', PStr (dst ipl)),
                  (''sourcePort'', PStr (str_nat (srcport (tcp packet)))),
                  (''destinationPort'', PStr (str_nat (dstport (tcp packet)))),
                  (''server'', protocol),
                  (''hasshServer'', PStr hasshs),
                  (''hasshServerAlgorithms'', PStr hasshs_str),
                  (''hasshVersion'', PStr HASSH_VERSION),
                  (''skex'', PStr skex),
                  (''seastc'', PStr seastc),
                  (''smastc'', PStr smastc),
                  (''scastc'', PStr scastc),
                  (''slcts'', PStr slcts),
                  (''slstc'', PStr slstc),
                  (''seacts'', PStr seacts),
                  (''smacts'', PStr smacts),
                  (''scacts'', PStr scacts)])"

subsection \<open>\<^verbatim>\<open>csv_logging\<close>\<close>

text \<open>
  The row variables are assigned in one of two branches and in no other; the call of
  \<^verbatim>\<open>format\<close> then evaluates its keyword arguments from left to right: five items of the
  record, then \<^verbatim>\<open>hasshType\<close>, which is unbound when neither branch ran.
\<close>

definition quoted :: "string \<Rightarrow> string" where
  "quoted s = [CHR 0x22] @ s @ [CHR 0x22]"

definition csv_logging :: "pydict \<Rightarrow> error + string" where
  "csv_logging record =
     ebind
       (if has_key ''hassh'' record then
          ebind (getitem record ''ckex'') (\<lambda>kexAlgs.
          ebind (getitem record ''ceacts'') (\<lambda>encAlgs.
          ebind (getitem record ''cmacts'') (\<lambda>macAlgs.
          ebind (getitem record ''ccacts'') (\<lambda>cmpAlgs.
          ebind (getitem record ''hassh'') (\<lambda>hassh.
          ebind (getitem record ''hasshAlgorithms'') (\<lambda>hasshAlgorithms.
          ebind (getitem record ''client'') (\<lambda>protocolString.
          Inr (Some (''client'', kexAlgs, encAlgs, macAlgs, cmpAlgs,
                     hassh, hasshAlgorithms, protocolString)))))))))
        else if has_key ''hasshServer'' record then
          ebind (getitem record ''skex'') (\<lambda>kexAlgs.
          ebind (getitem record ''seastc'') (\<lambda>encAlgs.
          ebind (getitem record ''smastc'') (\<lambda>macAlgs.
          ebind (getitem record ''scastc'') (\<lambda>cmpAlgs.
          ebind (getitem record ''hasshServer'') (\<lambda>hassh.
          ebind (getitem record ''hasshServerAlgorithms'') (\<lambda>hasshAlgorithms.
          ebind (getitem record ''server'') (\<lambda>protocolString.
          Inr (Some (''server'', kexAlgs, encAlgs, macAlgs, cmpAlgs,
                     hassh, hasshAlgorithms, protocolString)))))))))
        else Inr None)
       (\<lambda>vars.
          ebind (getitem record ''timestamp'') (\<lambda>ts.
          ebind (getitem record ''sourceIp'') (\<lambda>si.
          ebind (getitem record ''destinationIp'') (\<lambda>di.
          ebind (getitem record ''sourcePort'') (\<lambda>sp.
          ebind (getitem record ''destinationPort'') (\<lambda>dp.
            case vars of
              None \<Rightarrow> Inl (UnboundLocalError ''hasshType'')
            | Some (hasshType, kexAlgs, encAlgs, macAlgs, cmpAlgs,
                    hassh, hasshAlgorithms, protocolString) \<Rightarrow>
                Inr (format_val ts @ '','' @ format_val si @ '','' @ format_val di @ '',''
                     @ format_val sp @ '','' @ format_val dp @ '','' @ hasshType @ '',''
                     @ quoted (format_val protocolString) @ '','' @ format_val hassh @ '',''
                     @ quoted (format_val hasshAlgorithms) @ '',''
                     @ quoted (format_val kexAlgs) @ '','' @ quoted (format_val encAlgs) @ '',''
                     @ quoted (format_val macAlgs) @ '','' @ quoted (format_val cmpAlgs))))))))"

subsection \<open>\<^verbatim>\<open>process_pcap_file\<close>: replay of a capture file\<close>

text \<open>
  The state of the loop is the protocol dictionary and the list of results. One packet is
  one run of the loop body; \<^verbatim>\<open>continue\<close> leaves the state as it is at that point. The
  optional console summary (\<^verbatim>\<open>oprint\<close>) prints fields of a record that has already been
  appended and changes nothing else, so it is left out.
\<close>

record replay_state =
  protocol_dict :: "string \<rightharpoonup> string"
  results :: "pydict list"

definition process_packet :: "string \<Rightarrow> packet \<Rightarrow> replay_state \<Rightarrow> error + replay_state" where
  "process_packet fprint packet st =
     (if highest_layer packet \<noteq> ''SSH'' then Inr st
      else
        ebind
          (case ssh packet ''protocol'' of
             None \<Rightarrow> Inr st
           | Some protocol \<Rightarrow>
               (case ip packet of
                  None \<Rightarrow> Inl (AttributeError ''ip'')
                | Some ipl \<Rightarrow>
                    let srcip = src ipl;
                        dstip = dst ipl;
                        sport = str_nat (srcport (tcp packet));
                        dport = str_nat (srcport (tcp packet));
                        key = format_key srcip sport dstip dport
                    in Inr (st\<lparr>protocol_dict := (protocol_dict st)(key \<mapsto> protocol)\<rparr>)))
          (\<lambda>st.
             case ssh packet ''message_code'' of
               None \<Rightarrow> Inr st
             | Some message_code \<Rightarrow>
                 if message_code \<noteq> ''20'' then Inr st
                 else if ''analysis_retransmission'' \<in> set (field_names (tcp packet))
                       \<or> ''analysis_spurious_retransmission'' \<in> set (field_names (tcp packet))
                 then
                   ebind (event_log packet ''retransmission'')
                     (\<lambda>event. Inr (st\<lparr>results := results st @ [event]\<rparr>))
                 else if (fprint = ''client'' \<or> fprint = ''all'')
                       \<and> srcport (tcp packet) > dstport (tcp packet)
                 then
                   ebind (client_hassh packet (protocol_dict st))
                     (\<lambda>record. Inr (st\<lparr>results := results st @ [record]\<rparr>))
                 else if (fprint = ''server'' \<or> fprint = ''all'')
                       \<and> srcport (tcp packet) < dstport (tcp packet)
                 then
                   ebind (server_hassh packet (protocol_dict st))
                     (\<lambda>record. Inr (st\<lparr>results := results st @ [record]\<rparr>))
                 else Inr st))"

text \<open>
  The \<^verbatim>\<open>try\<close> encloses the whole \<^verbatim>\<open>for\<close> loop: an exception raised for one packet ends
  the loop, is printed (\<^verbatim>\<open>print('Error: {}'.format(e))\<close>), and the function returns the
  results appended so far. Every exception of the loop body is raised before the body
  appends, so these are the results of the packets before: \<open>process_packets\<close> gives the
  state in which the loop ended (at an exception, the state before the packet that raised
  it) and the exception that was printed, if any. \<open>process_pcap_file\<close> returns the result
  list; the printed exception is kept beside it.
\<close>

fun process_packets :: "string \<Rightarrow> packet list \<Rightarrow> replay_state \<Rightarrow> replay_state \<times> error option" where
  "process_packets fprint [] st = (st, None)"
| "process_packets fprint (packet # cap) st =
     (case process_packet fprint packet st of
        Inl e \<Rightarrow> (st, Some e)
      | Inr st' \<Rightarrow> process_packets fprint cap st')"

definition process_pcap_file :: "packet list \<Rightarrow> string \<Rightarrow> pydict list \<times> error option" where
  "process_pcap_file cap fprint =
     (case process_packets fprint cap \<lparr>protocol_dict = Map.empty, results = []\<rparr> of
        (st, printed) \<Rightarrow> (results st, printed))"

subsection \<open>\<^verbatim>\<open>live_capture\<close>: packets as they arrive\<close>

text \<open>
  The log file receives one line per call of \<^verbatim>\<open>logger.info\<close>: a text line (the header or
  a row of \<^verbatim>\<open>csv_logging\<close>) or the JSON text of a record, kept here as the record that
  \<^verbatim>\<open>json.dumps\<close> is given. The capture is the list of the packets that arrived before the
  operator's interrupt. No exception of the loop body is caught: it ends the program
  with the lines logged so far.
\<close>

datatype logline = Text string | Json pydict

definition csv_header :: string where
  "csv_header = ''timestamp,sourceIp,destinationIp,sourcePort,''
     @ ''destinationPort,hasshType,protocolString,hassh,''
     @ ''hasshAlgorithms,kexAlgs,encAlgs,macAlgs,cmpAlgs''"

record live_state =
  live_protocol_dict :: "string \<rightharpoonup> string"
  logged :: "logline list"

text \<open>The two branches of \<^verbatim>\<open>if lf == 'json': ... elif lf == 'csv': ...\<close> for a record.\<close>

definition log_record :: "string option \<Rightarrow> pydict \<Rightarrow> live_state \<Rightarrow> error + live_state" where
  "log_record lf record st =
     (if lf = Some ''json'' then Inr (st\<lparr>logged := logged st @ [Json record]\<rparr>)
      else if lf = Some ''csv'' then
        ebind (csv_logging record)
          (\<lambda>csv_record. Inr (st\<lparr>logged := logged st @ [Text csv_record]\<rparr>))
      else Inr st)"

definition live_packet :: "string \<Rightarrow> string option \<Rightarrow> packet \<Rightarrow> live_state \<Rightarrow> error + live_state" where
  "live_packet fprint lf packet st =
     (if highest_layer packet \<noteq> ''SSH'' then Inr st
      else
        ebind
          (case ssh packet ''protocol'' of
             None \<Rightarrow> Inr st
           | Some protocol \<Rightarrow>
               (case ip packet of
                  None \<Rightarrow> Inl (AttributeError ''ip'')
                | Some ipl \<Rightarrow>
                    let srcip = src ipl;
                        dstip = dst ipl;
                        sport = str_nat (srcport (tcp packet));
                        dport = str_nat (srcport (tcp packet));
                        key = format_key srcip sport dstip dport
                    in Inr (st\<lparr>live_protocol_dict := (live_protocol_dict st)(key \<mapsto> protocol)\<rparr>)))
          (\<lambda>st.
             case ssh packet ''message_code'' of
               None \<Rightarrow> Inr st
             | Some message_code \<Rightarrow>
                 if message_code \<noteq> ''20'' then Inr st
                 else if ''analysis_retransmission'' \<in> set (field_names (tcp packet))
                       \<or> ''analysis_spurious_retransmission'' \<in> set (field_names (tcp packet))
                 then
                   ebind (event_log packet ''retransmission'')
                     (\<lambda>event.
                        if lf = Some ''json'' then Inr (st\<lparr>logged := logged st @ [Json event]\<rparr>)
                        else Inr st)
                 else if (fprint = ''client'' \<or> fprint = ''all'')
                       \<and> srcport (tcp packet) > dstport (tcp packet)
                 then
                   ebind (client_hassh packet (live_protocol_dict st))
                     (\<lambda>record. log_record lf record st)
                 else if (fprint = ''server'' \<or> fprint = ''all'')
                       \<and> srcport (tcp packet) < dstport (tcp packet)
                 then
                   ebind (server_hassh packet (live_protocol_dict st))
                     (\<lambda>record. log_record lf record st)
                 else Inr st))"

fun live_packets :: "string \<Rightarrow> string option \<Rightarrow> packet list \<Rightarrow> live_state \<Rightarrow> logline list \<times> error option" where
  "live_packets fprint lf [] st = (logged st, None)"
| "live_packets fprint lf (packet # cap) st =
     (case live_packet fprint lf packet st of
        Inl e \<Rightarrow> (logged st, Some e)
      | Inr st' \<Rightarrow> live_packets fprint lf cap st')"

definition live_capture :: "packet list \<Rightarrow> string \<Rightarrow> string option \<Rightarrow> logline list \<times> error option" where
  "live_capture cap fprint lf =
     live_packets fprint lf cap
       \<lparr>live_protocol_dict = Map.empty,
        logged = (if lf = Some ''csv'' then [Text csv_header] else [])\<rparr>"

subsection \<open>\<^verbatim>\<open>main\<close>: writing the results of a capture file\<close>

text \<open>
  The branch of \<^verbatim>\<open>main\<close> for \<^verbatim>\<open>--read_file\<close>. The loop over \<^verbatim>\<open>output\<close> calls
  \<^verbatim>\<open>csv_logging\<close> on every element of the result list with no handler around it: an
  exception there ends the program after the lines already written.
\<close>

fun write_csv :: "pydict list \<Rightarrow> logline list \<Rightarrow> logline list \<times> error option" where
  "write_csv [] lines = (lines, None)"
| "write_csv (record # output) lines =
     (case csv_logging record of
        Inl e \<Rightarrow> (lines, Some e)
      | Inr csv_record \<Rightarrow> write_csv output (lines @ [Text csv_record]))"

definition main_read_file :: "packet list \<Rightarrow> string \<Rightarrow> string option \<Rightarrow> logline list \<times> error option" where
  "main_read_file cap fingerprint log_format =
     (let output = fst (process_pcap_file cap fingerprint)
      in if log_format = Some ''json'' then (map Json output, None)
         else if log_format = Some ''csv'' then write_csv output [Text csv_header]
         else ([], None))"

subsection \<open>Conditions of the loop and sample packets\<close>

text \<open>
  The two tests that the loop applies to a packet before it fingerprints it: the packet
  is an SSH packet with message code 20 (\<^verbatim>\<open>SSH_MSG_KEXINIT\<close>), and the dissector has
  marked the TCP segment as a retransmission.
\<close>

definition kexinit :: "packet \<Rightarrow> bool" where
  "kexinit packet =
     (highest_layer packet = ''SSH'' \<and> ssh packet ''message_code'' = Some ''20'')"

definition retransmitted :: "packet \<Rightarrow> bool" where
  "retransmitted packet =
     (''analysis_retransmission'' \<in> set (field_names (tcp packet))
      \<or> ''analysis_spurious_retransmission'' \<in> set (field_names (tcp packet)))"

text \<open>The records of the two roles, told apart as \<^verbatim>\<open>csv_logging\<close> tells them apart.\<close>

definition client_record :: "pydict \<Rightarrow> bool" where
  "client_record record = (has_key ''hassh'' record \<and> \<not> has_key ''hasshServer'' record)"

definition server_record :: "pydict \<Rightarrow> bool" where
  "server_record record = (has_key ''hasshServer'' record \<and> \<not> has_key ''hassh'' record)"

text \<open>
  A client at 10.0.0.1, port 50000, and a server at 10.0.0.2, port 22: the client's
  version string, its key-exchange packet, the same packet sent again, the server's
  key-exchange packet, and variants of the client's packet.
\<close>

definition client_banner :: packet where
  "client_banner =
     \<lparr>highest_layer = ''SSH'', sniff_time = ''2019-01-01T00:00:00.100000'',
      ip = Some \<lparr>src = ''10.0.0.1'', dst = ''10.0.0.2''\<rparr>,
      tcp = \<lparr>srcport = 50000, dstport = 22, field_names = [''srcport'', ''dstport'']\<rparr>,
      ssh = [''protocol'' \<mapsto> ''SSH-2.0-OpenSSH_8.1'']\<rparr>"

definition client_kexinit :: packet where
  "client_kexinit =
     \<lparr>highest_layer = ''SSH'', sniff_time = ''2019-01-01T00:00:00.200000'',
      ip = Some \<lparr>src = ''10.0.0.1'', dst = ''10.0.0.2''\<rparr>,
      tcp = \<lparr>srcport = 50000, dstport = 22, field_names = [''srcport'', ''dstport'']\<rparr>,
      ssh = [''message_code'' \<mapsto> ''20'',
             ''kex_algorithms'' \<mapsto> ''curve25519-sha256'',
             ''encryption_algorithms_client_to_server'' \<mapsto> ''aes128-ctr'',
             ''mac_algorithms_client_to_server'' \<mapsto> ''hmac-sha2-256'',
             ''compression_algorithms_client_to_server'' \<mapsto> ''none'']\<rparr>"

definition server_kexinit :: packet where
  "server_kexinit =
     \<lparr>highest_layer = ''SSH'', sniff_time = ''2019-01-01T00:00:00.300000'',
      ip = Some \<lparr>src = ''10.0.0.2'', dst = ''10.0.0.1''\<rparr>,
      tcp = \<lparr>srcport = 22, dstport = 50000, field_names = [''srcport'', ''dstport'']\<rparr>,
      ssh = [''message_code'' \<mapsto> ''20'',
             ''kex_algorithms'' \<mapsto> ''curve25519-sha256'',
             ''encryption_algorithms_server_to_client'' \<mapsto> ''aes128-ctr'',
             ''mac_algorithms_server_to_client'' \<mapsto> ''hmac-sha2-256'',
             ''compression_algorithms_server_to_client'' \<mapsto> ''none'']\<rparr>"

definition resent_kexinit :: packet where
  "resent_kexinit =
     client_kexinit\<lparr>tcp := \<lparr>srcport = 50000, dstport = 22,
        field_names = [''srcport'', ''dstport'', ''analysis_retransmission'']\<rparr>\<rparr>"

definition bare_kexinit :: packet where
  "bare_kexinit = client_kexinit\<lparr>ssh := [''message_code'' \<mapsto> ''20'']\<rparr>"

definition equal_ports_kexinit :: packet where
  "equal_ports_kexinit =
     client_kexinit\<lparr>tcp := \<lparr>srcport = 22, dstport = 22,
        field_names = [''srcport'', ''dstport'']\<rparr>\<rparr>"

definition ipv6_kexinit :: packet where
  "ipv6_kexinit = client_kexinit\<lparr>ip := None\<rparr>"

definition ipv6_resent_kexinit :: packet where
  "ipv6_resent_kexinit = resent_kexinit\<lparr>ip := None\<rparr>"

text \<open>
  The same client with the same source port talking to port 2222 of the same server:
  another TCP flow, with another version string.
\<close>

definition other_flow_banner :: packet where
  "other_flow_banner =
     \<lparr>highest_layer = ''SSH'', sniff_time = ''2019-01-01T00:00:00.150000'',
      ip = Some \<lparr>src = ''10.0.0.1'', dst = ''10.0.0.2''\<rparr>,
      tcp = \<lparr>srcport = 50000, dstport = 2222, field_names = [''srcport'', ''dstport'']\<rparr>,
      ssh = [''protocol'' \<mapsto> ''SSH-2.0-Go'']\<rparr>"

section \<open>Properties\<close>

subsection \<open>Evaluation and basic facts\<close>

lemma ebind_simps [simp]:
  "ebind (Inl e) f = Inl e"
  "ebind (Inr x) f = f x"
  by (simp_all add: ebind_def)

lemma str_nat_22: "str_nat 22 = ''22''"
  by (simp add: str_nat.simps [of 22] str_nat.simps [of 2])

lemma str_nat_2222: "str_nat 2222 = ''2222''"
  by (simp add: str_nat.simps [of 2222] str_nat.simps [of 222] str_nat.simps [of 22]
      str_nat.simps [of 2])

lemma str_nat_50000: "str_nat 50000 = ''50000''"
  by (simp add: str_nat.simps [of 50000] str_nat.simps [of 5000] str_nat.simps [of 500]
      str_nat.simps [of 50] str_nat.simps [of 5])

lemmas sample_packets =
  client_banner_def client_kexinit_def server_kexinit_def resent_kexinit_def
  bare_kexinit_def equal_ports_kexinit_def ipv6_kexinit_def ipv6_resent_kexinit_def
  other_flow_banner_def

text \<open>The digest has sixteen bytes, printed as thirty-two lowercase hexadecimal digits.\<close>

lemma length_md5: "length (md5 m) = 16"
  by (simp add: md5_def le_bytes32_def split: prod.splits)

lemma length_hexdigest: "length (hexdigest bs) = 2 * length bs"
  by (induction bs) (simp_all add: hexdigest_def)

lemma hexdigit_lower: "n < 16 \<Longrightarrow> hexdigit n \<in> set ''0123456789abcdef''"
proof -
  assume "n < 16"
  then have "n < length ''0123456789abcdef''" by simp
  then show ?thesis unfolding hexdigit_def by (rule nth_mem)
qed

lemma hexdigest_lower: "set (hexdigest bs) \<subseteq> set ''0123456789abcdef''"
proof -
  have "unat b div 16 < 16" "unat b mod 16 < 16" for b :: byte
  proof -
    have "unat b < 2 ^ 8" using unsigned_less [of b] by simp
    then show "unat b div 16 < 16" by simp
    show "unat b mod 16 < 16" by simp
  qed
  then have "hexdigit (unat b div 16) \<in> set ''0123456789abcdef''"
    "hexdigit (unat b mod 16) \<in> set ''0123456789abcdef''" for b :: byte
    by (blast intro: hexdigit_lower)+
  then show ?thesis
    unfolding hexdigest_def by (induction bs) auto
qed

lemma hassh_length: "length (hexdigest (md5 m)) = 32"
  by (simp add: length_hexdigest length_md5)

text \<open>The digest of the empty message is the first test vector of RFC 1321.\<close>

lemma md5_test_vector: "hexdigest (md5 (encode [])) = ''d41d8cd98f00b204e9800998ecf8427e''"
  by code_simp

lemma md5_semicolons: "hexdigest (md5 (encode '';;;'')) = ''95420f9d932ddd22833f17b96a80bedb''"
  by code_simp

text \<open>With an IPv4 layer, the three functions that build a record return one.\<close>

lemma client_hassh_total:
  "ip packet = Some ipl \<Longrightarrow> \<exists>record. client_hassh packet pdict = Inr record"
  by (simp add: client_hassh_def Let_def)

lemma server_hassh_total:
  "ip packet = Some ipl \<Longrightarrow> \<exists>record. server_hassh packet pdict = Inr record"
  by (simp add: server_hassh_def Let_def)

lemma event_log_total:
  "ip packet = Some ipl \<Longrightarrow> \<exists>event. event_log packet ''retransmission'' = Inr event"
  by (simp add: event_log_def)

lemma client_hassh_keys:
  "client_hassh packet pdict = Inr record \<Longrightarrow> client_record record"
  by (auto simp: client_hassh_def client_record_def has_key_def Let_def split: option.splits)

lemma server_hassh_keys:
  "server_hassh packet pdict = Inr record \<Longrightarrow> server_record record"
  by (auto simp: server_hassh_def server_record_def has_key_def Let_def split: option.splits)

text \<open>The loop body on a key-exchange packet that has an IPv4 layer.\<close>

lemma process_packet_kexinit:
  assumes "kexinit packet" "ip packet = Some ipl"
  shows "process_packet fprint packet st =
     (let st1 = (case ssh packet ''protocol'' of None \<Rightarrow> st
                 | Some protocol \<Rightarrow> st\<lparr>protocol_dict := (protocol_dict st)
                     (format_key (src ipl) (str_nat (srcport (tcp packet))) (dst ipl)
                        (str_nat (srcport (tcp packet))) \<mapsto> protocol)\<rparr>)
      in if retransmitted packet then
           ebind (event_log packet ''retransmission'')
             (\<lambda>event. Inr (st1\<lparr>results := results st1 @ [event]\<rparr>))
         else if (fprint = ''client'' \<or> fprint = ''all'')
                 \<and> srcport (tcp packet) > dstport (tcp packet) then
           ebind (client_hassh packet (protocol_dict st1))
             (\<lambda>record. Inr (st1\<lparr>results := results st1 @ [record]\<rparr>))
         else if (fprint = ''server'' \<or> fprint = ''all'')
                 \<and> srcport (tcp packet) < dstport (tcp packet) then
           ebind (server_hassh packet (protocol_dict st1))
             (\<lambda>record. Inr (st1\<lparr>results := results st1 @ [record]\<rparr>))
         else Inr st1)"
  using assms
  by (simp add: process_packet_def kexinit_def retransmitted_def Let_def split: option.splits)

subsection \<open>The fingerprint\<close>

text \<open>
  Claim C1. For a packet with an IPv4 layer, \<open>client_hassh\<close> and \<open>server_hassh\<close> return a
  record in which the fingerprint input string is the four algorithm lists of the
  record's own direction (key exchange, encryption, MAC, compression; each the empty
  string when the packet lacks the field) joined with a semicolon, and in which the
  fingerprint is the MD5 digest of the UTF-8 bytes of that string, printed as 32 lowercase
  hexadecimal digits. The witness is a key-exchange packet with no algorithm list at
  all: its input string is three semicolons.
\<close>

theorem fingerprint_is_md5_of_joined_fields:
  assumes "ip packet = Some ipl"
  shows "(let kex = field_or_empty (ssh packet) ''kex_algorithms'';
              enc = field_or_empty (ssh packet) ''encryption_algorithms_client_to_server'';
              mac = field_or_empty (ssh packet) ''mac_algorithms_client_to_server'';
              cmp = field_or_empty (ssh packet) ''compression_algorithms_client_to_server'';
              input = kex @ '';'' @ enc @ '';'' @ mac @ '';'' @ cmp;
              digest = hexdigest (md5 (encode input))
          in \<exists>record. client_hassh packet pdict = Inr record
               \<and> map_of record ''ckex'' = Some (PStr kex)
               \<and> map_of record ''ceacts'' = Some (PStr enc)
               \<and> map_of record ''cmacts'' = Some (PStr mac)
               \<and> map_of record ''ccacts'' = Some (PStr cmp)
               \<and> map_of record ''hasshAlgorithms'' = Some (PStr input)
               \<and> map_of record ''hassh'' = Some (PStr digest)
               \<and> length digest = 32 \<and> set digest \<subseteq> set ''0123456789abcdef'')
       \<and> (let kex = field_or_empty (ssh packet) ''kex_algorithms'';
              enc = field_or_empty (ssh packet) ''encryption_algorithms_server_to_client'';
              mac = field_or_empty (ssh packet) ''mac_algorithms_server_to_client'';
              cmp = field_or_empty (ssh packet) ''compression_algorithms_server_to_client'';
              input = kex @ '';'' @ enc @ '';'' @ mac @ '';'' @ cmp;
              digest = hexdigest (md5 (encode input))
          in \<exists>record. server_hassh packet pdict = Inr record
               \<and> map_of record ''skex'' = Some (PStr kex)
               \<and> map_of record ''seastc'' = Some (PStr enc)
               \<and> map_of record ''smastc'' = Some (PStr mac)
               \<and> map_of record ''scastc'' = Some (PStr cmp)
               \<and> map_of record ''hasshServerAlgorithms'' = Some (PStr input)
               \<and> map_of record ''hasshServer'' = Some (PStr digest)
               \<and> length digest = 32 \<and> set digest \<subseteq> set ''0123456789abcdef'')"
proof -
  have len: "length (hexdigest (md5 m)) = 32" for m by (rule hassh_length)
  have low: "set (hexdigest (md5 m)) \<subseteq> set ''0123456789abcdef''" for m by (rule hexdigest_lower)
  show ?thesis
    unfolding Let_def
    using assms len low by (simp add: client_hassh_def server_hassh_def Let_def del: set_simps)
qed

theorem fingerprint_is_md5_of_joined_fields_witness:
  "ip bare_kexinit = Some \<lparr>src = ''10.0.0.1'', dst = ''10.0.0.2''\<rparr>
   \<and> (\<exists>record. client_hassh bare_kexinit Map.empty = Inr record
         \<and> map_of record ''hasshAlgorithms'' = Some (PStr '';;;'')
         \<and> map_of record ''hassh'' = Some (PStr ''95420f9d932ddd22833f17b96a80bedb''))
   \<and> (\<exists>record. server_hassh bare_kexinit Map.empty = Inr record
         \<and> map_of record ''hasshServerAlgorithms'' = Some (PStr '';;;'')
         \<and> map_of record ''hasshServer'' = Some (PStr ''95420f9d932ddd22833f17b96a80bedb''))"
proof -
  have i: "ip bare_kexinit = Some \<lparr>src = ''10.0.0.1'', dst = ''10.0.0.2''\<rparr>"
    by (simp add: sample_packets)
  have f: "field_or_empty (ssh bare_kexinit) k = []" if "k \<noteq> ''message_code''" for k
    using that by (simp add: sample_packets field_or_empty_def)
  show ?thesis
    using fingerprint_is_md5_of_joined_fields [OF i, of Map.empty] i
    by (simp add: Let_def f md5_semicolons del: set_simps) blast
qed

subsection \<open>Direction\<close>

text \<open>
  Claim C2, as stated, fails: not every key-exchange packet with the greater source port
  yields a client record. The packet below is a key-exchange packet, is not marked as a
  retransmission and goes from port 50000 to port 22, but it has no IPv4 layer:
  \<^verbatim>\<open>client_hassh\<close> raises \<open>AttributeError\<close> at \<^verbatim>\<open>packet.ip.src\<close>, and the replay
  returns no record. No path of the program reads another network layer than
  \<^verbatim>\<open>packet.ip\<close>.
\<close>

theorem ipv6_kexinit_without_record:
  "kexinit ipv6_kexinit \<and> \<not> retransmitted ipv6_kexinit
   \<and> dstport (tcp ipv6_kexinit) < srcport (tcp ipv6_kexinit)
   \<and> process_pcap_file [ipv6_kexinit] ''all'' = ([], Some (AttributeError ''ip''))"
  by (simp add: kexinit_def retransmitted_def process_pcap_file_def process_packet_def
      client_hassh_def sample_packets)

text \<open>
  Claim C2, amended. With the role filter \<open>''all''\<close>, a key-exchange packet that is not
  marked as a retransmission and has an IPv4 layer adds to the results a record whose
  role depends on the two ports only: a client record when the source port is the greater
  one, a server record when it is the smaller one, and nothing when the ports are equal.
\<close>

theorem role_by_ports:
  assumes "kexinit packet" and "\<not> retransmitted packet" and "ip packet = Some ipl"
  shows "\<exists>st'. process_packet ''all'' packet st = Inr st'
           \<and> (if srcport (tcp packet) > dstport (tcp packet) then
                \<exists>record. results st' = results st @ [record]
                  \<and> client_hassh packet (protocol_dict st') = Inr record
                  \<and> client_record record
              else if srcport (tcp packet) < dstport (tcp packet) then
                \<exists>record. results st' = results st @ [record]
                  \<and> server_hassh packet (protocol_dict st') = Inr record
                  \<and> server_record record
              else results st' = results st)"
proof -
  define st1 where "st1 = (case ssh packet ''protocol'' of None \<Rightarrow> st
       | Some protocol \<Rightarrow> st\<lparr>protocol_dict := (protocol_dict st)
           (format_key (src ipl) (str_nat (srcport (tcp packet))) (dst ipl)
              (str_nat (srcport (tcp packet))) \<mapsto> protocol)\<rparr>)"
  have res: "results st1 = results st"
    by (simp add: st1_def split: option.splits)
  obtain c where c: "client_hassh packet (protocol_dict st1) = Inr c"
    using client_hassh_total [OF assms(3)] by blast
  obtain s where s: "server_hassh packet (protocol_dict st1) = Inr s"
    using server_hassh_total [OF assms(3)] by blast
  have step: "process_packet ''all'' packet st =
      (if srcport (tcp packet) > dstport (tcp packet) then Inr (st1\<lparr>results := results st1 @ [c]\<rparr>)
       else if srcport (tcp packet) < dstport (tcp packet) then Inr (st1\<lparr>results := results st1 @ [s]\<rparr>)
       else Inr st1)"
    using assms(2)
    by (simp add: process_packet_kexinit [OF assms(1,3)] Let_def c s flip: st1_def)
  show ?thesis
    using client_hassh_keys [OF c] server_hassh_keys [OF s]
    by (simp add: step res c s)
qed

theorem role_by_ports_witness:
  "kexinit client_kexinit \<and> \<not> retransmitted client_kexinit
   \<and> ip client_kexinit = Some \<lparr>src = ''10.0.0.1'', dst = ''10.0.0.2''\<rparr>
   \<and> (\<exists>st' record. process_packet ''all'' client_kexinit
           \<lparr>protocol_dict = Map.empty, results = []\<rparr> = Inr st'
         \<and> results st' = [record] \<and> client_record record)
   \<and> kexinit server_kexinit \<and> \<not> retransmitted server_kexinit
   \<and> ip server_kexinit = Some \<lparr>src = ''10.0.0.2'', dst = ''10.0.0.1''\<rparr>
   \<and> (\<exists>st' record. process_packet ''all'' server_kexinit
           \<lparr>protocol_dict = Map.empty, results = []\<rparr> = Inr st'
         \<and> results st' = [record] \<and> server_record record)
   \<and> kexinit equal_ports_kexinit \<and> \<not> retransmitted equal_ports_kexinit
   \<and> ip equal_ports_kexinit = Some \<lparr>src = ''10.0.0.1'', dst = ''10.0.0.2''\<rparr>
   \<and> (\<exists>st'. process_packet ''all'' equal_ports_kexinit
           \<lparr>protocol_dict = Map.empty, results = []\<rparr> = Inr st'
         \<and> results st' = [])"
proof -
  have k: "kexinit client_kexinit" "kexinit server_kexinit" "kexinit equal_ports_kexinit"
    by (simp_all add: kexinit_def sample_packets)
  have r: "\<not> retransmitted client_kexinit" "\<not> retransmitted server_kexinit"
    "\<not> retransmitted equal_ports_kexinit"
    by (simp_all add: retransmitted_def sample_packets)
  have i: "ip client_kexinit = Some \<lparr>src = ''10.0.0.1'', dst = ''10.0.0.2''\<rparr>"
    "ip server_kexinit = Some \<lparr>src = ''10.0.0.2'', dst = ''10.0.0.1''\<rparr>"
    "ip equal_ports_kexinit = Some \<lparr>src = ''10.0.0.1'', dst = ''10.0.0.2''\<rparr>"
    by (simp_all add: sample_packets)
  have p: "srcport (tcp client_kexinit) > dstport (tcp client_kexinit)"
    "srcport (tcp server_kexinit) < dstport (tcp server_kexinit)"
    "srcport (tcp equal_ports_kexinit) = dstport (tcp equal_ports_kexinit)"
    by (simp_all add: sample_packets)
  show ?thesis
    using role_by_ports [OF k(1) r(1) i(1), of "\<lparr>protocol_dict = Map.empty, results = []\<rparr>"]
      role_by_ports [OF k(2) r(2) i(2), of "\<lparr>protocol_dict = Map.empty, results = []\<rparr>"]
      role_by_ports [OF k(3) r(3) i(3), of "\<lparr>protocol_dict = Map.empty, results = []\<rparr>"]
      k r i p
    by auto
qed

subsection \<open>Retransmissions\<close>

lemma event_log_keys:
  "event_log packet event = Inr ev \<Longrightarrow>
     \<not> client_record ev \<and> \<not> server_record ev
     \<and> map_of ev ''eventType'' = Some (PStr ''retransmission'')"
  by (auto simp: event_log_def client_record_def server_record_def has_key_def
      split: if_splits option.splits)

lemma event_log_no_hassh:
  "event_log packet event = Inr ev \<Longrightarrow>
     \<not> has_key ''hassh'' ev \<and> \<not> has_key ''hasshServer'' ev"
  by (auto simp: event_log_def has_key_def split: if_splits option.splits)

lemma live_packet_kexinit_retransmitted:
  assumes "kexinit packet" "retransmitted packet" "ip packet = Some ipl"
  shows "live_packet fprint lf packet st =
     (let st1 = (case ssh packet ''protocol'' of None \<Rightarrow> st
                 | Some protocol \<Rightarrow> st\<lparr>live_protocol_dict := (live_protocol_dict st)
                     (format_key (src ipl) (str_nat (srcport (tcp packet))) (dst ipl)
                        (str_nat (srcport (tcp packet))) \<mapsto> protocol)\<rparr>)
      in ebind (event_log packet ''retransmission'')
             (\<lambda>event. if lf = Some ''json'' then Inr (st1\<lparr>logged := logged st1 @ [Json event]\<rparr>)
                else Inr st1))"
  using assms
  by (simp add: live_packet_def kexinit_def retransmitted_def Let_def split: option.splits)

text \<open>
  Claim C3, as stated, fails: not every key-exchange packet marked as a retransmission
  yields an event. The packet below is such a packet without an IPv4 layer:
  \<^verbatim>\<open>event_log\<close> raises \<open>AttributeError\<close> at \<^verbatim>\<open>packet.ip.src\<close>, so the replay of a
  file returns no event, and a live capture ends with nothing logged, also in the JSON
  format. No fingerprint is produced either.
\<close>

theorem ipv6_retransmission_without_event:
  "kexinit ipv6_resent_kexinit \<and> retransmitted ipv6_resent_kexinit
   \<and> process_pcap_file [ipv6_resent_kexinit] ''all'' = ([], Some (AttributeError ''ip''))
   \<and> live_capture [ipv6_resent_kexinit] ''all'' (Some ''json'')
       = ([], Some (AttributeError ''ip''))"
  by (simp add: kexinit_def retransmitted_def process_pcap_file_def process_packet_def
      live_capture_def live_packet_def event_log_def sample_packets)

text \<open>
  Claim C3, amended. A key-exchange packet that the dissector marks as a retransmission
  (\<open>analysis_retransmission\<close> or \<open>analysis_spurious_retransmission\<close> among the TCP field
  names) and that has an IPv4 layer produces the retransmission event and no fingerprint:
  in the replay of a file the event, which has neither a \<open>hassh\<close> nor a
  \<open>hasshServer\<close> key, is the one element appended to the results, whatever the role
  filter and the ports are, so the test comes before the comparison of the ports and
  before the fingerprint functions; in a live capture the event is logged in the JSON
  format and nothing is logged otherwise.
\<close>

theorem retransmission_replaces_fingerprint:
  assumes "kexinit packet" and "retransmitted packet" and "ip packet = Some ipl"
  shows "\<exists>event st' lst'.
           event_log packet ''retransmission'' = Inr event
         \<and> map_of event ''eventType'' = Some (PStr ''retransmission'')
         \<and> \<not> has_key ''hassh'' event \<and> \<not> has_key ''hasshServer'' event
         \<and> process_packet fprint packet st = Inr st'
         \<and> results st' = results st @ [event]
         \<and> live_packet fprint lf packet lst = Inr lst'
         \<and> logged lst' = logged lst @ (if lf = Some ''json'' then [Json event] else [])"
proof -
  obtain event where ev: "event_log packet ''retransmission'' = Inr event"
    using event_log_total [OF assms(3)] by blast
  have "\<exists>st'. process_packet fprint packet st = Inr st' \<and> results st' = results st @ [event]"
    using assms(2)
    by (simp add: process_packet_kexinit [OF assms(1,3)] ev Let_def split: option.splits)
  moreover have "\<exists>lst'. live_packet fprint lf packet lst = Inr lst'
      \<and> logged lst' = logged lst @ (if lf = Some ''json'' then [Json event] else [])"
    by (simp add: live_packet_kexinit_retransmitted [OF assms] ev Let_def split: option.splits)
  ultimately show ?thesis
    using ev event_log_keys [OF ev] event_log_no_hassh [OF ev] by blast
qed

theorem retransmission_replaces_fingerprint_witness:
  "kexinit resent_kexinit \<and> retransmitted resent_kexinit
   \<and> ip resent_kexinit = Some \<lparr>src = ''10.0.0.1'', dst = ''10.0.0.2''\<rparr>
   \<and> (\<exists>event st' lst'. 
         event_log resent_kexinit ''retransmission'' = Inr event
       \<and> process_packet ''all'' resent_kexinit \<lparr>protocol_dict = Map.empty, results = []\<rparr> = Inr st'
       \<and> results st' = [event]
       \<and> live_packet ''all'' (Some ''csv'') resent_kexinit
            \<lparr>live_protocol_dict = Map.empty, logged = [Text csv_header]\<rparr> = Inr lst'
       \<and> logged lst' = [Text csv_header])"
proof -
  have k: "kexinit resent_kexinit" by (simp add: kexinit_def sample_packets)
  have r: "retransmitted resent_kexinit" by (simp add: retransmitted_def sample_packets)
  have i: "ip resent_kexinit = Some \<lparr>src = ''10.0.0.1'', dst = ''10.0.0.2''\<rparr>"
    by (simp add: sample_packets)
  show ?thesis
    using retransmission_replaces_fingerprint [OF k r i, of "''all''"
        "\<lparr>protocol_dict = Map.empty, results = []\<rparr>" "Some ''csv''"
        "\<lparr>live_protocol_dict = Map.empty, logged = [Text csv_header]\<rparr>"] k r i
    by auto
qed


text \<open>
  Over a whole replay, the fingerprint records in the result list are at most as many as
  the key-exchange packets that are not retransmissions.
\<close>

lemma banner_part_results:
  assumes "(case ssh packet ''protocol'' of
             None \<Rightarrow> Inr st
           | Some protocol \<Rightarrow>
               (case ip packet of
                  None \<Rightarrow> Inl (AttributeError ''ip'')
                | Some ipl \<Rightarrow>
                    let srcip = src ipl;
                        dstip = dst ipl;
                        sport = str_nat (srcport (tcp packet));
                        dport = str_nat (srcport (tcp packet));
                        key = format_key srcip sport dstip dport
                    in Inr (st\<lparr>protocol_dict := (protocol_dict st)(key \<mapsto> protocol)\<rparr>))) = Inr st1"
  shows "results st1 = results st"
  using assms by (auto simp: Let_def split: option.splits)

lemma process_packet_results:
  assumes "process_packet fprint packet st = Inr st'"
  shows "results st' = results st
     \<or> (\<exists>r. results st' = results st @ [r]
           \<and> (client_record r \<or> server_record r \<longrightarrow> kexinit packet \<and> \<not> retransmitted packet))"
proof (cases "highest_layer packet = ''SSH''")
  case False
  with assms show ?thesis by (simp add: process_packet_def)
next
  case ssh: True
  let ?banner = "(case ssh packet ''protocol'' of
             None \<Rightarrow> Inr st
           | Some protocol \<Rightarrow>
               (case ip packet of
                  None \<Rightarrow> Inl (AttributeError ''ip'')
                | Some ipl \<Rightarrow>
                    let srcip = src ipl;
                        dstip = dst ipl;
                        sport = str_nat (srcport (tcp packet));
                        dport = str_nat (srcport (tcp packet));
                        key = format_key srcip sport dstip dport
                    in Inr (st\<lparr>protocol_dict := (protocol_dict st)(key \<mapsto> protocol)\<rparr>)))"
  obtain st1 where b: "?banner = Inr st1"
    using assms ssh by (cases ?banner) (simp_all add: process_packet_def)
  have res: "results st1 = results st" using b by (rule banner_part_results)
  show ?thesis
  proof (cases "kexinit packet")
    case False
    with assms ssh b have "st' = st1"
      by (auto simp: process_packet_def kexinit_def split: option.splits if_splits)
    with res show ?thesis by simp
  next
    case k: True
    then have code: "ssh packet ''message_code'' = Some ''20''" by (simp add: kexinit_def)
    show ?thesis
    proof (cases "retransmitted packet")
      case True
      with assms ssh b code obtain ev where "event_log packet ''retransmission'' = Inr ev"
        and "st' = st1\<lparr>results := results st1 @ [ev]\<rparr>"
        by (cases "event_log packet ''retransmission''")
          (auto simp: process_packet_def retransmitted_def)
      with res event_log_keys [of packet "''retransmission''" ev] show ?thesis by simp
    next
      case False
      with assms ssh b code k show ?thesis
        using res
        by (cases "client_hassh packet (protocol_dict st1)";
            cases "server_hassh packet (protocol_dict st1)")
          (auto simp: process_packet_def retransmitted_def split: if_splits)
    qed
  qed
qed

lemma process_packets_fingerprints:
  assumes "process_packets fprint cap st = (st', printed)"
  shows "length (filter (\<lambda>r. client_record r \<or> server_record r) (results st'))
     \<le> length (filter (\<lambda>r. client_record r \<or> server_record r) (results st))
       + length (filter (\<lambda>p. kexinit p \<and> \<not> retransmitted p) cap)"
  using assms
proof (induction cap arbitrary: st)
  case Nil
  then show ?case by simp
next
  case (Cons packet cap)
  show ?case
  proof (cases "process_packet fprint packet st")
    case (Inl e)
    with Cons.prems show ?thesis by simp
  next
    case (Inr st1)
    with Cons.prems have "process_packets fprint cap st1 = (st', printed)" by simp
    from Cons.IH [OF this] process_packet_results [OF Inr] show ?thesis
      by (auto split: if_splits)
  qed
qed

lemma replay_fingerprints_bounded:
  "length (filter (\<lambda>r. client_record r \<or> server_record r) (fst (process_pcap_file cap fprint)))
     \<le> length (filter (\<lambda>p. kexinit p \<and> \<not> retransmitted p) cap)"
proof -
  obtain st' printed where
    r: "process_packets fprint cap \<lparr>protocol_dict = Map.empty, results = []\<rparr> = (st', printed)"
    by (cases "process_packets fprint cap \<lparr>protocol_dict = Map.empty, results = []\<rparr>")
  from process_packets_fingerprints [OF r] show ?thesis
    by (simp add: process_pcap_file_def r)
qed

subsection \<open>One record for a key-exchange packet\<close>

text \<open>
  Claim C8, as stated, fails: a key-exchange packet with equal ports passes the message
  filter and produces neither a fingerprint nor an event.
\<close>

theorem kexinit_without_record:
  "kexinit equal_ports_kexinit
   \<and> process_pcap_file [equal_ports_kexinit] ''all'' = ([], None)"
  by (simp add: kexinit_def retransmitted_def process_pcap_file_def process_packet_def
      sample_packets)

text \<open>
  Claim C8, amended. A key-exchange packet with an IPv4 layer adds at most one element to
  the results, never an event and a fingerprint together: the event when the packet is
  marked as a retransmission; otherwise a client record when the source port is the
  greater one and the filter is \<open>client\<close> or \<open>all\<close>, a server record when the source
  port is the smaller one and the filter is \<open>server\<close> or \<open>all\<close>, and nothing in
  the remaining cases.
\<close>

theorem at_most_one_record_per_kexinit:
  assumes "kexinit packet" and "ip packet = Some ipl"
  shows "\<exists>st' new. process_packet fprint packet st = Inr st'
           \<and> results st' = results st @ new
           \<and> (if retransmitted packet then
                \<exists>event. new = [event] \<and> event_log packet ''retransmission'' = Inr event
                  \<and> \<not> client_record event \<and> \<not> server_record event
              else if (fprint = ''client'' \<or> fprint = ''all'')
                      \<and> srcport (tcp packet) > dstport (tcp packet) then
                \<exists>record. new = [record] \<and> client_record record
              else if (fprint = ''server'' \<or> fprint = ''all'')
                      \<and> srcport (tcp packet) < dstport (tcp packet) then
                \<exists>record. new = [record] \<and> server_record record
              else new = [])"
proof -
  define st1 where "st1 = (case ssh packet ''protocol'' of None \<Rightarrow> st
       | Some protocol \<Rightarrow> st\<lparr>protocol_dict := (protocol_dict st)
           (format_key (src ipl) (str_nat (srcport (tcp packet))) (dst ipl)
              (str_nat (srcport (tcp packet))) \<mapsto> protocol)\<rparr>)"
  have res: "results st1 = results st"
    by (simp add: st1_def split: option.splits)
  obtain c where c: "client_hassh packet (protocol_dict st1) = Inr c"
    using client_hassh_total [OF assms(2)] by blast
  obtain s where s: "server_hassh packet (protocol_dict st1) = Inr s"
    using server_hassh_total [OF assms(2)] by blast
  obtain ev where ev: "event_log packet ''retransmission'' = Inr ev"
    using event_log_total [OF assms(2)] by blast
  have step: "process_packet fprint packet st =
      (if retransmitted packet then Inr (st1\<lparr>results := results st1 @ [ev]\<rparr>)
       else if (fprint = ''client'' \<or> fprint = ''all'')
               \<and> srcport (tcp packet) > dstport (tcp packet)
         then Inr (st1\<lparr>results := results st1 @ [c]\<rparr>)
       else if (fprint = ''server'' \<or> fprint = ''all'')
               \<and> srcport (tcp packet) < dstport (tcp packet)
         then Inr (st1\<lparr>results := results st1 @ [s]\<rparr>)
       else Inr st1)"
    by (simp add: process_packet_kexinit [OF assms] Let_def c s ev flip: st1_def)
  show ?thesis
    using client_hassh_keys [OF c] server_hassh_keys [OF s] event_log_keys [OF ev]
    by (simp add: step res ev)
qed

theorem at_most_one_record_per_kexinit_witness:
  "kexinit server_kexinit
   \<and> ip server_kexinit = Some \<lparr>src = ''10.0.0.2'', dst = ''10.0.0.1''\<rparr>
   \<and> (\<exists>st'. process_packet ''client'' server_kexinit
           \<lparr>protocol_dict = Map.empty, results = []\<rparr> = Inr st' \<and> results st' = [])
   \<and> (\<exists>st' record. process_packet ''server'' server_kexinit
           \<lparr>protocol_dict = Map.empty, results = []\<rparr> = Inr st'
         \<and> results st' = [record] \<and> server_record record)"
proof -
  have k: "kexinit server_kexinit" by (simp add: kexinit_def sample_packets)
  have r: "\<not> retransmitted server_kexinit" by (simp add: retransmitted_def sample_packets)
  have i: "ip server_kexinit = Some \<lparr>src = ''10.0.0.2'', dst = ''10.0.0.1''\<rparr>"
    by (simp add: sample_packets)
  have p: "srcport (tcp server_kexinit) < dstport (tcp server_kexinit)"
    by (simp add: sample_packets)
  show ?thesis
    using at_most_one_record_per_kexinit [OF k i, of "''client''"
        "\<lparr>protocol_dict = Map.empty, results = []\<rparr>"]
      at_most_one_record_per_kexinit [OF k i, of "''server''"
        "\<lparr>protocol_dict = Map.empty, results = []\<rparr>"] k r i p
    by auto
qed

subsection \<open>Absent fields\<close>

text \<open>
  Claim C9, as stated, fails for the protocol string: with no entry under the packet's
  key in the protocol dictionary, the \<open>client\<close> field of the record is \<open>None\<close>, not
  the empty string.
\<close>

theorem protocol_field_is_none:
  "client_hassh bare_kexinit Map.empty =
     Inr [(''timestamp'', PStr ''2019-01-01T00:00:00.200000''),
          (''sourceIp'', PStr ''10.0.0.1''),
          (''destinationIp'', PStr ''10.0.0.2''),
          (''sourcePort'', PStr ''50000''),
          (''destinationPort'', PStr ''22''),
          (''client'', PNone),
          (''hassh'', PStr ''95420f9d932ddd22833f17b96a80bedb''),
          (''hasshAlgorithms'', PStr '';;;''),
          (''hasshVersion'', PStr ''1.0''),
          (''ckex'', PStr []), (''ceacts'', PStr []), (''cmacts'', PStr []),
          (''ccacts'', PStr []), (''clcts'', PStr []), (''clstc'', PStr []),
          (''ceastc'', PStr []), (''cmastc'', PStr []), (''ccastc'', PStr [])]"
  by (simp add: client_hassh_def sample_packets field_or_empty_def Let_def str_nat_50000
      str_nat_22 md5_semicolons HASSH_VERSION_def)

text \<open>
  Claim C9, amended. For a packet with an IPv4 layer, both fingerprint functions return a
  record in which each of the nine algorithm-list and language-list fields is a string,
  the value of the SSH field when the packet has it and the empty string when it has not;
  no absent SSH field is an error. The protocol field is the string stored under the
  packet's key in the protocol dictionary, and \<open>None\<close> when there is none.
\<close>

theorem absent_fields_default_to_empty:
  assumes "ip packet = Some ipl"
  shows "(\<exists>record. client_hassh packet pdict = Inr record
            \<and> map_of record ''ckex'' = Some (PStr (field_or_empty (ssh packet) ''kex_algorithms''))
            \<and> map_of record ''ceacts'' = Some (PStr (field_or_empty (ssh packet) ''encryption_algorithms_client_to_server''))
            \<and> map_of record ''cmacts'' = Some (PStr (field_or_empty (ssh packet) ''mac_algorithms_client_to_server''))
            \<and> map_of record ''ccacts'' = Some (PStr (field_or_empty (ssh packet) ''compression_algorithms_client_to_server''))
            \<and> map_of record ''clcts'' = Some (PStr (field_or_empty (ssh packet) ''languages_client_to_server''))
            \<and> map_of record ''clstc'' = Some (PStr (field_or_empty (ssh packet) ''languages_server_to_client''))
            \<and> map_of record ''ceastc'' = Some (PStr (field_or_empty (ssh packet) ''encryption_algorithms_server_to_client''))
            \<and> map_of record ''cmastc'' = Some (PStr (field_or_empty (ssh packet) ''mac_algorithms_server_to_client''))
            \<and> map_of record ''ccastc'' = Some (PStr (field_or_empty (ssh packet) ''compression_algorithms_server_to_client''))
            \<and> map_of record ''client'' = Some
                 (case pdict (format_key (src ipl) (str_nat (srcport (tcp packet))) (dst ipl)
                                (str_nat (srcport (tcp packet)))) of
                    None \<Rightarrow> PNone | Some protocol \<Rightarrow> PStr protocol))
       \<and> (\<exists>record. server_hassh packet pdict = Inr record
            \<and> map_of record ''skex'' = Some (PStr (field_or_empty (ssh packet) ''kex_algorithms''))
            \<and> map_of record ''seastc'' = Some (PStr (field_or_empty (ssh packet) ''encryption_algorithms_server_to_client''))
            \<and> map_of record ''smastc'' = Some (PStr (field_or_empty (ssh packet) ''mac_algorithms_server_to_client''))
            \<and> map_of record ''scastc'' = Some (PStr (field_or_empty (ssh packet) ''compression_algorithms_server_to_client''))
            \<and> map_of record ''slcts'' = Some (PStr (field_or_empty (ssh packet) ''languages_client_to_server''))
            \<and> map_of record ''slstc'' = Some (PStr (field_or_empty (ssh packet) ''languages_server_to_client''))
            \<and> map_of record ''seacts'' = Some (PStr (field_or_empty (ssh packet) ''encryption_algorithms_client_to_server''))
            \<and> map_of record ''smacts'' = Some (PStr (field_or_empty (ssh packet) ''mac_algorithms_client_to_server''))
            \<and> map_of record ''scacts'' = Some (PStr (field_or_empty (ssh packet) ''compression_algorithms_client_to_server''))
            \<and> map_of record ''server'' = Some
                 (case pdict (format_key (src ipl) (str_nat (srcport (tcp packet))) (dst ipl)
                                (str_nat (srcport (tcp packet)))) of
                    None \<Rightarrow> PNone | Some protocol \<Rightarrow> PStr protocol))
       \<and> (\<forall>f. ssh packet f = None \<longrightarrow> field_or_empty (ssh packet) f = [])"
  using assms by (simp add: client_hassh_def server_hassh_def Let_def field_or_empty_def)

theorem absent_fields_default_to_empty_witness:
  "ip client_kexinit = Some \<lparr>src = ''10.0.0.1'', dst = ''10.0.0.2''\<rparr>
   \<and> ssh client_kexinit ''languages_client_to_server'' = None
   \<and> (\<exists>record. client_hassh client_kexinit Map.empty = Inr record
         \<and> map_of record ''ckex'' = Some (PStr ''curve25519-sha256'')
         \<and> map_of record ''clcts'' = Some (PStr [])
         \<and> map_of record ''client'' = Some PNone)"
proof -
  have i: "ip client_kexinit = Some \<lparr>src = ''10.0.0.1'', dst = ''10.0.0.2''\<rparr>"
    by (simp add: sample_packets)
  have n: "ssh client_kexinit ''languages_client_to_server'' = None"
    by (simp add: sample_packets)
  have k: "field_or_empty (ssh client_kexinit) ''kex_algorithms'' = ''curve25519-sha256''"
    by (simp add: sample_packets field_or_empty_def)
  show ?thesis
    using absent_fields_default_to_empty [OF i, of Map.empty] i n k
    by auto
qed

subsection \<open>An exception during the replay\<close>

lemma process_packets_append:
  assumes "process_packets fprint before st0 = (st1, None)"
  shows "process_packets fprint (before @ rest) st0 = process_packets fprint rest st1"
  using assms
proof (induction before arbitrary: st0)
  case Nil
  then show ?case by simp
next
  case (Cons p before)
  then show ?case by (cases "process_packet fprint p st0") auto
qed

text \<open>
  Claim C6, as stated, fails: the replay does not go on to the next packet. A
  key-exchange packet without an IPv4 layer raises \<open>AttributeError\<close>; the client's
  packet that follows it, which alone gives one record, is never processed.
\<close>

theorem replay_does_not_continue:
  "process_pcap_file [ipv6_kexinit, client_kexinit] ''all'' = ([], Some (AttributeError ''ip''))
   \<and> length (fst (process_pcap_file [client_kexinit] ''all'')) = 1"
  by (simp add: process_pcap_file_def process_packet_def client_hassh_def Let_def
      sample_packets)

text \<open>
  Claim C6, amended. When the loop body raises an exception on a packet, the exception is
  caught and printed, no record is added for that packet, and the replay ends there: the
  function returns the results of the packets before it, in their order, and the packets
  after it are not processed.
\<close>

theorem fault_ends_replay:
  assumes "process_packets fprint before \<lparr>protocol_dict = Map.empty, results = []\<rparr> = (st1, None)"
    and "process_packet fprint packet st1 = Inl e"
  shows "process_pcap_file (before @ packet # rest) fprint = (results st1, Some e)
       \<and> process_pcap_file before fprint = (results st1, None)"
  using assms
  by (simp add: process_pcap_file_def process_packets_append [OF assms(1)])

theorem fault_ends_replay_witness:
  "snd (process_packets ''all'' [client_banner, client_kexinit]
          \<lparr>protocol_dict = Map.empty, results = []\<rparr>) = None
   \<and> process_packet ''all'' ipv6_kexinit
        (fst (process_packets ''all'' [client_banner, client_kexinit]
                \<lparr>protocol_dict = Map.empty, results = []\<rparr>)) = Inl (AttributeError ''ip'')
   \<and> process_pcap_file ([client_banner, client_kexinit] @ ipv6_kexinit # [server_kexinit]) ''all''
       = (fst (process_pcap_file [client_banner, client_kexinit] ''all''),
          Some (AttributeError ''ip''))
   \<and> length (fst (process_pcap_file [client_banner, client_kexinit] ''all'')) = 1"
proof -
  let ?st0 = "\<lparr>protocol_dict = Map.empty, results = []\<rparr>"
  let ?run = "process_packets ''all'' [client_banner, client_kexinit] ?st0"
  have s: "snd ?run = None"
    by (simp add: process_packet_def client_hassh_def Let_def sample_packets)
  then have a: "?run = (fst ?run, None)"
    by (metis prod.collapse)
  have b: "process_packet ''all'' ipv6_kexinit (fst ?run) = Inl (AttributeError ''ip'')"
    by (simp add: process_packet_def client_hassh_def sample_packets)
  have l: "length (results (fst ?run)) = 1"
    by (simp add: process_packet_def client_hassh_def Let_def sample_packets)
  show ?thesis
    using fault_ends_replay [OF a b, of "[server_kexinit]"] s b l
    by simp
qed

subsection \<open>Rows of the delimited format\<close>

lemma getitem_simps:
  "getitem [] k = Inl (KeyError k)"
  "getitem ((k', v) # d) k = (if k' = k then Inr v else getitem d k)"
  by (simp_all add: getitem_def)

lemma csv_logging_unbound:
  assumes "\<not> has_key ''hassh'' record" and "\<not> has_key ''hasshServer'' record"
  shows "csv_logging record =
     ebind (getitem record ''timestamp'') (\<lambda>ts.
     ebind (getitem record ''sourceIp'') (\<lambda>si.
     ebind (getitem record ''destinationIp'') (\<lambda>di.
     ebind (getitem record ''sourcePort'') (\<lambda>sp.
     ebind (getitem record ''destinationPort'') (\<lambda>dp.
       Inl (UnboundLocalError ''hasshType''))))))"
  using assms by (simp add: csv_logging_def)

lemma csv_logging_raises:
  assumes "\<not> has_key ''hassh'' record" and "\<not> has_key ''hasshServer'' record"
  shows "\<exists>e. csv_logging record = Inl e"
  by (auto simp: csv_logging_unbound [OF assms] ebind_def split: sum.splits)

lemma getitem_has_key: "has_key k d \<Longrightarrow> \<exists>v. getitem d k = Inr v"
  by (auto simp: has_key_def getitem_def)

text \<open>The row, from the items that \<^verbatim>\<open>csv_logging\<close> reads.\<close>

lemma csv_logging_client_row:
  assumes "has_key ''hassh'' r"
    and "getitem r ''ckex'' = Inr k" and "getitem r ''ceacts'' = Inr e"
    and "getitem r ''cmacts'' = Inr m" and "getitem r ''ccacts'' = Inr c"
    and "getitem r ''hassh'' = Inr h" and "getitem r ''hasshAlgorithms'' = Inr hv"
    and "getitem r ''client'' = Inr p"
    and "getitem r ''timestamp'' = Inr ts" and "getitem r ''sourceIp'' = Inr si"
    and "getitem r ''destinationIp'' = Inr di" and "getitem r ''sourcePort'' = Inr sp"
    and "getitem r ''destinationPort'' = Inr dp"
  shows "csv_logging r = Inr (format_val ts @ '','' @ format_val si @ '',''
             @ format_val di @ '','' @ format_val sp @ '','' @ format_val dp
             @ '',client,'' @ quoted (format_val p) @ '','' @ format_val h @ '',''
             @ quoted (format_val hv) @ '','' @ quoted (format_val k) @ '',''
             @ quoted (format_val e) @ '','' @ quoted (format_val m) @ '',''
             @ quoted (format_val c))"
  by (simp add: csv_logging_def assms)

lemma csv_logging_server_row:
  assumes "\<not> has_key ''hassh'' r" and "has_key ''hasshServer'' r"
    and "getitem r ''skex'' = Inr k" and "getitem r ''seastc'' = Inr e"
    and "getitem r ''smastc'' = Inr m" and "getitem r ''scastc'' = Inr c"
    and "getitem r ''hasshServer'' = Inr h" and "getitem r ''hasshServerAlgorithms'' = Inr hv"
    and "getitem r ''server'' = Inr p"
    and "getitem r ''timestamp'' = Inr ts" and "getitem r ''sourceIp'' = Inr si"
    and "getitem r ''destinationIp'' = Inr di" and "getitem r ''sourcePort'' = Inr sp"
    and "getitem r ''destinationPort'' = Inr dp"
  shows "csv_logging r = Inr (format_val ts @ '','' @ format_val si @ '',''
             @ format_val di @ '','' @ format_val sp @ '','' @ format_val dp
             @ '',server,'' @ quoted (format_val p) @ '','' @ format_val h @ '',''
             @ quoted (format_val hv) @ '','' @ quoted (format_val k) @ '',''
             @ quoted (format_val e) @ '','' @ quoted (format_val m) @ '',''
             @ quoted (format_val c))"
  by (simp add: csv_logging_def assms)

text \<open>
  Claim C10. \<open>csv_logging\<close> is partial. On a record with neither a \<open>hassh\<close> nor a
  \<open>hasshServer\<close> key it raises an exception and returns no row: \<open>UnboundLocalError\<close>
  for \<open>hasshType\<close> when the five common items are there (a \<open>KeyError\<close> for the first
  of them that is not), and so on every event of \<open>event_log\<close>. On the records of
  \<open>client_hassh\<close> and \<open>server_hassh\<close> it returns the row of thirteen columns.
\<close>

theorem csv_logging_partial:
  "(\<not> has_key ''hassh'' record \<and> \<not> has_key ''hasshServer'' record \<longrightarrow>
      (\<exists>e. csv_logging record = Inl e)
      \<and> (has_key ''timestamp'' record \<and> has_key ''sourceIp'' record
           \<and> has_key ''destinationIp'' record \<and> has_key ''sourcePort'' record
           \<and> has_key ''destinationPort'' record \<longrightarrow>
         csv_logging record = Inl (UnboundLocalError ''hasshType'')))
   \<and> (event_log packet event = Inr ev \<longrightarrow>
        csv_logging ev = Inl (UnboundLocalError ''hasshType''))
   \<and> (client_hassh packet pdict = Inr cr \<longrightarrow>
        (\<exists>ts si di sp dp p h hv k e m c.
           getitem cr ''timestamp'' = Inr ts \<and> getitem cr ''sourceIp'' = Inr si
         \<and> getitem cr ''destinationIp'' = Inr di \<and> getitem cr ''sourcePort'' = Inr sp
         \<and> getitem cr ''destinationPort'' = Inr dp \<and> getitem cr ''client'' = Inr p
         \<and> getitem cr ''hassh'' = Inr h \<and> getitem cr ''hasshAlgorithms'' = Inr hv
         \<and> getitem cr ''ckex'' = Inr k \<and> getitem cr ''ceacts'' = Inr e
         \<and> getitem cr ''cmacts'' = Inr m \<and> getitem cr ''ccacts'' = Inr c
         \<and> csv_logging cr = Inr (format_val ts @ '','' @ format_val si @ '',''
             @ format_val di @ '','' @ format_val sp @ '','' @ format_val dp
             @ '',client,'' @ quoted (format_val p) @ '','' @ format_val h @ '',''
             @ quoted (format_val hv) @ '','' @ quoted (format_val k) @ '',''
             @ quoted (format_val e) @ '','' @ quoted (format_val m) @ '',''
             @ quoted (format_val c))))
   \<and> (server_hassh packet pdict = Inr sr \<longrightarrow>
        (\<exists>ts si di sp dp p h hv k e m c.
           getitem sr ''timestamp'' = Inr ts \<and> getitem sr ''sourceIp'' = Inr si
         \<and> getitem sr ''destinationIp'' = Inr di \<and> getitem sr ''sourcePort'' = Inr sp
         \<and> getitem sr ''destinationPort'' = Inr dp \<and> getitem sr ''server'' = Inr p
         \<and> getitem sr ''hasshServer'' = Inr h \<and> getitem sr ''hasshServerAlgorithms'' = Inr hv
         \<and> getitem sr ''skex'' = Inr k \<and> getitem sr ''seastc'' = Inr e
         \<and> getitem sr ''smastc'' = Inr m \<and> getitem sr ''scastc'' = Inr c
         \<and> csv_logging sr = Inr (format_val ts @ '','' @ format_val si @ '',''
             @ format_val di @ '','' @ format_val sp @ '','' @ format_val dp
             @ '',server,'' @ quoted (format_val p) @ '','' @ format_val h @ '',''
             @ quoted (format_val hv) @ '','' @ quoted (format_val k) @ '',''
             @ quoted (format_val e) @ '','' @ quoted (format_val m) @ '',''
             @ quoted (format_val c))))"
proof (intro conjI impI)
  assume a: "\<not> has_key ''hassh'' record \<and> \<not> has_key ''hasshServer'' record"
  then show "\<exists>e. csv_logging record = Inl e" by (simp add: csv_logging_raises)
  assume "has_key ''timestamp'' record \<and> has_key ''sourceIp'' record
           \<and> has_key ''destinationIp'' record \<and> has_key ''sourcePort'' record
           \<and> has_key ''destinationPort'' record"
  then obtain ts si di sp dp where "getitem record ''timestamp'' = Inr ts"
    "getitem record ''sourceIp'' = Inr si" "getitem record ''destinationIp'' = Inr di"
    "getitem record ''sourcePort'' = Inr sp" "getitem record ''destinationPort'' = Inr dp"
    by (meson getitem_has_key)
  then show "csv_logging record = Inl (UnboundLocalError ''hasshType'')"
    using a by (simp add: csv_logging_unbound)
next
  assume "event_log packet event = Inr ev"
  then show "csv_logging ev = Inl (UnboundLocalError ''hasshType'')"
    by (auto simp: event_log_def csv_logging_def has_key_def getitem_simps
        split: if_splits option.splits)
next
  assume "client_hassh packet pdict = Inr cr"
  then have keys: "has_key ''hassh'' cr"
    using client_hassh_keys [of packet pdict cr] by (simp add: client_record_def)
  from \<open>client_hassh packet pdict = Inr cr\<close> obtain ipl where i: "ip packet = Some ipl"
    by (cases "ip packet") (simp_all add: client_hassh_def)
  have cr: "cr = projr (client_hassh packet pdict)"
    using \<open>client_hassh packet pdict = Inr cr\<close> by simp
  have "\<exists>v. getitem cr ''timestamp'' = Inr v" "\<exists>v. getitem cr ''sourceIp'' = Inr v"
    "\<exists>v. getitem cr ''destinationIp'' = Inr v" "\<exists>v. getitem cr ''sourcePort'' = Inr v"
    "\<exists>v. getitem cr ''destinationPort'' = Inr v" "\<exists>v. getitem cr ''client'' = Inr v"
    "\<exists>v. getitem cr ''hassh'' = Inr v" "\<exists>v. getitem cr ''hasshAlgorithms'' = Inr v"
    "\<exists>v. getitem cr ''ckex'' = Inr v" "\<exists>v. getitem cr ''ceacts'' = Inr v"
    "\<exists>v. getitem cr ''cmacts'' = Inr v" "\<exists>v. getitem cr ''ccacts'' = Inr v"
    unfolding cr by (simp_all add: client_hassh_def Let_def getitem_simps i)
  then obtain ts si di sp dp p h hv k e m c where g:
    "getitem cr ''timestamp'' = Inr ts" "getitem cr ''sourceIp'' = Inr si"
    "getitem cr ''destinationIp'' = Inr di" "getitem cr ''sourcePort'' = Inr sp"
    "getitem cr ''destinationPort'' = Inr dp" "getitem cr ''client'' = Inr p"
    "getitem cr ''hassh'' = Inr h" "getitem cr ''hasshAlgorithms'' = Inr hv"
    "getitem cr ''ckex'' = Inr k" "getitem cr ''ceacts'' = Inr e"
    "getitem cr ''cmacts'' = Inr m" "getitem cr ''ccacts'' = Inr c"
    by blast
  from csv_logging_client_row [OF keys g(9-12) g(7,8,6) g(1-5)] g
  show "\<exists>ts si di sp dp p h hv k e m c.
           getitem cr ''timestamp'' = Inr ts \<and> getitem cr ''sourceIp'' = Inr si
         \<and> getitem cr ''destinationIp'' = Inr di \<and> getitem cr ''sourcePort'' = Inr sp
         \<and> getitem cr ''destinationPort'' = Inr dp \<and> getitem cr ''client'' = Inr p
         \<and> getitem cr ''hassh'' = Inr h \<and> getitem cr ''hasshAlgorithms'' = Inr hv
         \<and> getitem cr ''ckex'' = Inr k \<and> getitem cr ''ceacts'' = Inr e
         \<and> getitem cr ''cmacts'' = Inr m \<and> getitem cr ''ccacts'' = Inr c
         \<and> csv_logging cr = Inr (format_val ts @ '','' @ format_val si @ '',''
             @ format_val di @ '','' @ format_val sp @ '','' @ format_val dp
             @ '',client,'' @ quoted (format_val p) @ '','' @ format_val h @ '',''
             @ quoted (format_val hv) @ '','' @ quoted (format_val k) @ '',''
             @ quoted (format_val e) @ '','' @ quoted (format_val m) @ '',''
             @ quoted (format_val c))"
    by blast
next
  assume "server_hassh packet pdict = Inr sr"
  then have keys: "has_key ''hasshServer'' sr" and nokey: "\<not> has_key ''hassh'' sr"
    using server_hassh_keys [of packet pdict sr] by (simp_all add: server_record_def)
  from \<open>server_hassh packet pdict = Inr sr\<close> obtain ipl where i: "ip packet = Some ipl"
    by (cases "ip packet") (simp_all add: server_hassh_def)
  have sr: "sr = projr (server_hassh packet pdict)"
    using \<open>server_hassh packet pdict = Inr sr\<close> by simp
  have "\<exists>v. getitem sr ''timestamp'' = Inr v" "\<exists>v. getitem sr ''sourceIp'' = Inr v"
    "\<exists>v. getitem sr ''destinationIp'' = Inr v" "\<exists>v. getitem sr ''sourcePort'' = Inr v"
    "\<exists>v. getitem sr ''destinationPort'' = Inr v" "\<exists>v. getitem sr ''server'' = Inr v"
    "\<exists>v. getitem sr ''hasshServer'' = Inr v" "\<exists>v. getitem sr ''hasshServerAlgorithms'' = Inr v"
    "\<exists>v. getitem sr ''skex'' = Inr v" "\<exists>v. getitem sr ''seastc'' = Inr v"
    "\<exists>v. getitem sr ''smastc'' = Inr v" "\<exists>v. getitem sr ''scastc'' = Inr v"
    unfolding sr by (simp_all add: server_hassh_def Let_def getitem_simps i)
  then obtain ts si di sp dp p h hv k e m c where g:
    "getitem sr ''timestamp'' = Inr ts" "getitem sr ''sourceIp'' = Inr si"
    "getitem sr ''destinationIp'' = Inr di" "getitem sr ''sourcePort'' = Inr sp"
    "getitem sr ''destinationPort'' = Inr dp" "getitem sr ''server'' = Inr p"
    "getitem sr ''hasshServer'' = Inr h" "getitem sr ''hasshServerAlgorithms'' = Inr hv"
    "getitem sr ''skex'' = Inr k" "getitem sr ''seastc'' = Inr e"
    "getitem sr ''smastc'' = Inr m" "getitem sr ''scastc'' = Inr c"
    by blast
  from csv_logging_server_row [OF nokey keys g(9-12) g(7,8,6) g(1-5)] g
  show "\<exists>ts si di sp dp p h hv k e m c.
           getitem sr ''timestamp'' = Inr ts \<and> getitem sr ''sourceIp'' = Inr si
         \<and> getitem sr ''destinationIp'' = Inr di \<and> getitem sr ''sourcePort'' = Inr sp
         \<and> getitem sr ''destinationPort'' = Inr dp \<and> getitem sr ''server'' = Inr p
         \<and> getitem sr ''hasshServer'' = Inr h \<and> getitem sr ''hasshServerAlgorithms'' = Inr hv
         \<and> getitem sr ''skex'' = Inr k \<and> getitem sr ''seastc'' = Inr e
         \<and> getitem sr ''smastc'' = Inr m \<and> getitem sr ''scastc'' = Inr c
         \<and> csv_logging sr = Inr (format_val ts @ '','' @ format_val si @ '',''
             @ format_val di @ '','' @ format_val sp @ '','' @ format_val dp
             @ '',server,'' @ quoted (format_val p) @ '','' @ format_val h @ '',''
             @ quoted (format_val hv) @ '','' @ quoted (format_val k) @ '',''
             @ quoted (format_val e) @ '','' @ quoted (format_val m) @ '',''
             @ quoted (format_val c))"
    by blast
qed

theorem csv_logging_partial_witness:
  "event_log resent_kexinit ''retransmission'' =
     Inr [(''timestamp'', PStr ''2019-01-01T00:00:00.200000''),
          (''eventType'', PStr ''retransmission''),
          (''eventMessage'', PStr ''This packet is a (suspected) retransmission''),
          (''sourceIp'', PStr ''10.0.0.1''),
          (''destinationIp'', PStr ''10.0.0.2''),
          (''sourcePort'', PStr ''50000''),
          (''destinationPort'', PStr ''22'')]
   \<and> csv_logging
        [(''timestamp'', PStr ''2019-01-01T00:00:00.200000''),
         (''eventType'', PStr ''retransmission''),
         (''eventMessage'', PStr ''This packet is a (suspected) retransmission''),
         (''sourceIp'', PStr ''10.0.0.1''),
         (''destinationIp'', PStr ''10.0.0.2''),
         (''sourcePort'', PStr ''50000''),
         (''destinationPort'', PStr ''22'')] = Inl (UnboundLocalError ''hasshType'')
   \<and> (\<exists>row. csv_logging (projr (client_hassh resent_kexinit Map.empty)) = Inr row)
   \<and> (\<exists>row. csv_logging (projr (server_hassh resent_kexinit Map.empty)) = Inr row)"
proof -
  let ?ev = "[(''timestamp'', PStr ''2019-01-01T00:00:00.200000''),
          (''eventType'', PStr ''retransmission''),
          (''eventMessage'', PStr ''This packet is a (suspected) retransmission''),
          (''sourceIp'', PStr ''10.0.0.1''),
          (''destinationIp'', PStr ''10.0.0.2''),
          (''sourcePort'', PStr ''50000''),
          (''destinationPort'', PStr ''22'')]"
  have i: "ip resent_kexinit = Some \<lparr>src = ''10.0.0.1'', dst = ''10.0.0.2''\<rparr>"
    by (simp add: sample_packets)
  have e: "event_log resent_kexinit ''retransmission'' = Inr ?ev"
    by (simp add: event_log_def sample_packets str_nat_50000 str_nat_22)
  have k: "\<not> has_key ''hassh'' ?ev \<and> \<not> has_key ''hasshServer'' ?ev"
    "has_key ''timestamp'' ?ev \<and> has_key ''sourceIp'' ?ev
           \<and> has_key ''destinationIp'' ?ev \<and> has_key ''sourcePort'' ?ev
           \<and> has_key ''destinationPort'' ?ev"
    by (simp_all add: has_key_def)
  have c: "client_hassh resent_kexinit Map.empty = Inr (projr (client_hassh resent_kexinit Map.empty))"
    using client_hassh_total [OF i, of Map.empty] by auto
  have s: "server_hassh resent_kexinit Map.empty = Inr (projr (server_hassh resent_kexinit Map.empty))"
    using server_hassh_total [OF i, of Map.empty] by auto
  from csv_logging_partial [of ?ev resent_kexinit "''retransmission''" ?ev Map.empty
      "projr (client_hassh resent_kexinit Map.empty)"
      "projr (server_hassh resent_kexinit Map.empty)"]
  have "csv_logging ?ev = Inl (UnboundLocalError ''hasshType'')"
    "\<exists>row. csv_logging (projr (client_hassh resent_kexinit Map.empty)) = Inr row"
    "\<exists>row. csv_logging (projr (server_hassh resent_kexinit Map.empty)) = Inr row"
    using e k c s by blast+
  with e show ?thesis by blast
qed

subsection \<open>The key of the protocol dictionary\<close>

text \<open>
  Claim C5 asks for a key made of the source address, the source port, the destination
  address and the destination port of the packet. The code assigns
  \<^verbatim>\<open>dport = packet.tcp.srcport\<close> wherever it builds the key, so the fourth component is
  the source port again. After the client's version string, sent from port 50000 to port
  22, the dictionary holds the string under \<open>10.0.0.1:50000_10.0.0.2:50000\<close> and has
  nothing under \<open>10.0.0.1:50000_10.0.0.2:22\<close>.
\<close>

theorem key_repeats_source_port:
  "snd (process_packets ''all'' [client_banner] \<lparr>protocol_dict = Map.empty, results = []\<rparr>) = None
   \<and> protocol_dict (fst (process_packets ''all'' [client_banner]
         \<lparr>protocol_dict = Map.empty, results = []\<rparr>)) ''10.0.0.1:50000_10.0.0.2:50000''
       = Some ''SSH-2.0-OpenSSH_8.1''
   \<and> protocol_dict (fst (process_packets ''all'' [client_banner]
         \<lparr>protocol_dict = Map.empty, results = []\<rparr>)) ''10.0.0.1:50000_10.0.0.2:22''
       = None"
  by (simp add: process_packet_def Let_def format_key_def str_nat_50000 str_nat_22
      sample_packets)

text \<open>
  Claim C4 asks that a key-exchange packet receives the version string last recorded for
  its own four-tuple, and none when there is none for that tuple. Since the key leaves
  the destination port out (see C5), a version string sent by the same client from the
  same source port to another port of the same server is stored under the same key. In
  the first replay below the string of the flow to port 22 is overwritten by that of the
  flow to port 2222, and the key-exchange packet of the flow to port 22 gets the latter;
  in the second replay there is no version string for the flow to port 22 at all, and its
  key-exchange packet still gets one.
\<close>

theorem banner_of_another_flow:
  "length (fst (process_pcap_file [client_banner, other_flow_banner, client_kexinit] ''all'')) = 1
   \<and> map_of (hd (fst (process_pcap_file [client_banner, other_flow_banner, client_kexinit] ''all'')))
        ''client'' = Some (PStr ''SSH-2.0-Go'')
   \<and> length (fst (process_pcap_file [other_flow_banner, client_kexinit] ''all'')) = 1
   \<and> map_of (hd (fst (process_pcap_file [other_flow_banner, client_kexinit] ''all'')))
        ''client'' = Some (PStr ''SSH-2.0-Go'')"
  by (simp add: process_pcap_file_def process_packet_def client_hassh_def Let_def
      format_key_def str_nat_50000 str_nat_22 str_nat_2222 sample_packets)

subsection \<open>Events and the delimited format\<close>

text \<open>The digest of the sample algorithm lists, computed once.\<close>

lemma md5_sample:
  "hexdigest (md5 (encode ''curve25519-sha256;aes128-ctr;hmac-sha2-256;none''))
     = ''e97d07603350d1111ec2b64bf25413c9''"
  by code_simp

text \<open>
  Claim C7 asks that the delimited output is the header and one row for every fingerprint
  record, with no retransmission event in it. \<^verbatim>\<open>event_log\<close> notes that the event is
  reported for JSON output only, and \<^verbatim>\<open>live_capture\<close> logs it under
  \<^verbatim>\<open>lf == 'json'\<close> only; \<^verbatim>\<open>main\<close>, however, passes every element of the result list
  of a capture file to \<^verbatim>\<open>csv_logging\<close>, the events with them. For a capture with the
  client's key-exchange packet, its retransmission and the server's key-exchange packet,
  the output is the header and the client's row; then \<^verbatim>\<open>csv_logging\<close> raises
  \<open>UnboundLocalError\<close> on the event, no handler catches it, and the row of the server's
  record, the third result, is never written.
\<close>

theorem csv_output_ends_at_event:
  "main_read_file [client_kexinit, resent_kexinit, server_kexinit] ''all'' (Some ''csv'') =
     ([Text csv_header,
       Text (''2019-01-01T00:00:00.200000,10.0.0.1,10.0.0.2,50000,22,client,''
             @ quoted ''None'' @ '',e97d07603350d1111ec2b64bf25413c9,''
             @ quoted ''curve25519-sha256;aes128-ctr;hmac-sha2-256;none'' @ '',''
             @ quoted ''curve25519-sha256'' @ '','' @ quoted ''aes128-ctr'' @ '',''
             @ quoted ''hmac-sha2-256'' @ '','' @ quoted ''none'')],
      Some (UnboundLocalError ''hasshType''))
   \<and> map server_record (fst (process_pcap_file [client_kexinit, resent_kexinit, server_kexinit]
        ''all'')) = [False, False, True]"
  by (simp add: main_read_file_def process_pcap_file_def process_packet_def client_hassh_def
      server_hassh_def event_log_def csv_logging_def getitem_simps has_key_def Let_def
      format_val_def quoted_def field_or_empty_def server_record_def
      format_key_def str_nat_50000 str_nat_22 md5_sample sample_packets)

end
